theory Spec2Isabelle
  imports Main "HOL-Library.Word" "HOL-Library.Sublist" "HOL-Library.AList"
begin

section \<open>Values of the JavaScript runtime\<close>

text \<open>
  Strings are lists of 8-bit characters. The strings the filename generator works on (the
  pathname and hostname of a parsed URL, an ISO timestamp, a hex string) are ASCII.

  A value thrown by a library call is either an instance of \<open>Error\<close>, which carries its
  message, or some other value. \<open>NonError\<close> stands for a thrown value that is not an
  \<open>Error\<close>, is not null or undefined and has no \<open>message\<close> property (a thrown string, for
  example): reading its \<open>message\<close> inside a template literal gives the text \<open>undefined\<close>.
\<close>

datatype thrown = Error string | NonError

fun message_in_template :: "thrown \<Rightarrow> string" where
  "message_in_template (Error m) = m"
| "message_in_template NonError = ''undefined''"

text \<open>The object \<open>new URL(url)\<close>, with the two properties the program reads.\<close>

record URL =
  pathname :: string
  hostname :: string

subsection \<open>String operations of the runtime used by the program\<close>

text \<open>\<open>s.split(sep)\<close> for a one-character separator: the result is never empty.\<close>

fun split_js :: "char \<Rightarrow> string \<Rightarrow> string list" where
  "split_js sep [] = [[]]"
| "split_js sep (c # cs) =
     (if c = sep then [] # split_js sep cs
      else (case split_js sep cs of
              [] \<Rightarrow> [[c]]
            | s # ss \<Rightarrow> (c # s) # ss))"

text \<open>The character class \<open>[a-zA-Z0-9_\-]\<close>.\<close>

definition is_safe_char :: "char \<Rightarrow> bool" where
  "is_safe_char c =
     (let n = (of_char c :: nat) in
        (97 \<le> n \<and> n \<le> 122) \<or> (65 \<le> n \<and> n \<le> 90) \<or> (48 \<le> n \<and> n \<le> 57)
        \<or> c = CHR ''_'' \<or> c = CHR ''-'')"

text \<open>\<open>s.replace(/[^a-zA-Z0-9_\-]/g, "_")\<close>: every character outside the class becomes an underscore.\<close>

definition sanitize_char :: "char \<Rightarrow> char" where
  "sanitize_char c = (if is_safe_char c then c else CHR ''_'')"

definition sanitize :: "string \<Rightarrow> string" where
  "sanitize s = map sanitize_char s"

text \<open>\<open>buffer.toString("hex")\<close>: two lower-case hexadecimal digits per byte.\<close>

definition hex_digit :: "nat \<Rightarrow> char" where
  "hex_digit n = ''0123456789abcdef'' ! (n mod 16)"

definition hex_byte :: "8 word \<Rightarrow> string" where
  "hex_byte b = [hex_digit (unat b div 16), hex_digit (unat b mod 16)]"

definition toString_hex :: "8 word list \<Rightarrow> string" where
  "toString_hex bs = concat (map hex_byte bs)"

text \<open>The decimal text of a non-negative integer, as a template literal prints a number.\<close>

fun decimal :: "nat \<Rightarrow> string" where
  "decimal n =
     (if n < 10 then [char_of (48 + n)]
      else decimal (n div 10) @ [char_of (48 + n mod 10)])"

declare decimal.simps [simp del]


text \<open>A character is a decimal digit.\<close>

definition is_digit :: "char \<Rightarrow> bool" where
  "is_digit c = (48 \<le> (of_char c :: nat) \<and> (of_char c :: nat) \<le> 57)"

text \<open>
  The whitespace class \<open>\s\<close> of a regular expression, which is also what \<open>trim\<close> removes,
  on 8-bit characters: tab, line feed, vertical tab, form feed, carriage return, space and
  the no-break space. (The members of the class above code 255 are not characters of this
  model.)
\<close>

definition is_js_space :: "char \<Rightarrow> bool" where
  "is_js_space c = ((of_char c :: nat) \<in> {9, 10, 11, 12, 13, 32, 160})"

text \<open>\<open>s.replace(/\s+/g, " ")\<close>: each maximal run of whitespace becomes one space.\<close>

function collapse_whitespace :: "string \<Rightarrow> string" where
  "collapse_whitespace [] = []"
| "collapse_whitespace (c # cs) =
     (if is_js_space c then CHR '' '' # collapse_whitespace (dropWhile is_js_space cs)
      else c # collapse_whitespace cs)"
  by pat_completeness auto
termination
  by (relation "measure length") (auto simp: less_Suc_eq_le length_dropWhile_le)

definition trim :: "string \<Rightarrow> string" where
  "trim s = rev (dropWhile is_js_space (rev (dropWhile is_js_space s)))"

section \<open>The data of the program\<close>

text \<open>\<open>RequestPayload\<close> of \<^verbatim>\<open>types.ts\<close>: a url and optional headers.\<close>

record RequestPayload =
  url :: string
  headers :: "(string \<times> string) list option"

datatype outputFormat = Html | Json | Txt | Markdown

text \<open>One element \<open>{ type: "text", text: t }\<close> of a result's content.\<close>

datatype content_item = TextItem string

record FetchResult =
  content :: "content_item list"
  isError :: bool

text \<open>
  The response object \<open>fetch\<close> resolves to: the properties \<open>ok\<close> and \<open>status\<close>, and the
  outcomes of \<open>response.text()\<close> and \<open>response.json()\<close>. The type \<open>'j\<close> is the type of
  parsed JSON values.
\<close>

record 'j Response =
  ok :: bool
  status :: nat
  res_text :: "thrown + string"
  res_json :: "thrown + 'j"

section \<open>The environment and the world\<close>

text \<open>
  Everything the program calls and does not define is a field of the environment: the
  configured download directory, the clock, the random source and the library functions
  (\<open>fs.mkdir\<close>, \<open>fs.writeFile\<close>, \<open>isIpPrivate\<close>, \<open>fetch\<close>, \<open>JSON.stringify\<close>, JSDOM, Turndown,
  \<open>new URL\<close>, \<open>path.join\<close>). A library call that can throw returns a sum, \<open>Inl\<close> the thrown
  value; for the two filesystem calls \<open>Some\<close> is the thrown value and \<open>None\<close> is success.

  \<open>jsdom_body_text html\<close> is \<open>document.body.textContent\<close> of the document JSDOM parses from
  \<open>html\<close>, after every \<open>script\<close> and \<open>style\<close> element has been removed; \<open>None\<close> is \<open>null\<close>.
\<close>

record 'j env =
  downloadDir :: string
  mkdir :: "string \<Rightarrow> thrown option"
  writeFile :: "string \<Rightarrow> string \<Rightarrow> thrown option"
  isIpPrivate :: "string \<Rightarrow> bool"
  fetch :: "string \<Rightarrow> (string \<times> string) list \<Rightarrow> thrown + 'j Response"
  JSON_stringify :: "'j \<Rightarrow> string"
  jsdom_body_text :: "string \<Rightarrow> thrown + string option"
  turndown :: "string \<Rightarrow> thrown + string"
  new_URL :: "string \<Rightarrow> thrown + URL"
  path_join :: "string \<Rightarrow> string \<Rightarrow> string"
  toISOString :: string
  randomBytes :: "nat \<Rightarrow> 8 word list"

text \<open>
  The world records the side effects: the directories created, the files written with their
  content, and the requests handed to \<open>fetch\<close> with their headers.
\<close>

record world =
  dirs :: "string set"
  files :: "string \<rightharpoonup> string"
  requests :: "(string \<times> (string \<times> string) list) list"

section \<open>The program: \<^verbatim>\<open>Fetcher.ts\<close>\<close>

definition ensureDownloadDirExists :: "'j env \<Rightarrow> world \<Rightarrow> (thrown + unit) \<times> world" where
  "ensureDownloadDirExists e w =
     (case mkdir e (downloadDir e) of
        None \<Rightarrow> (Inr (), w\<lparr>dirs := insert (downloadDir e) (dirs w)\<rparr>)
      | Some err \<Rightarrow>
          (Inl (Error (''Failed to create download directory: '' @ message_in_template err)), w))"

text \<open>\<open>new Date().toISOString().replace(/[-:.]/g, "").slice(0, 15) + "Z"\<close>\<close>

definition timestamp :: "string \<Rightarrow> string" where
  "timestamp isoString = take 15 (filter (\<lambda>c. c \<notin> set ''-:.'') isoString) @ ''Z''"

text \<open>
  The base name: the last non-empty part of the pathname, or the hostname when there is
  none, sanitized and cut to 50 characters.
\<close>

definition baseName :: "URL \<Rightarrow> string" where
  "baseName urlObj =
     (let pathParts = filter (\<lambda>s. s \<noteq> []) (split_js CHR ''/'' (pathname urlObj))
      in take 50 (sanitize (if length pathParts > 0 then last pathParts else hostname urlObj)))"

definition generateUniqueFilename :: "'j env \<Rightarrow> string \<Rightarrow> string \<Rightarrow> thrown + string" where
  "generateUniqueFilename e u extension =
     (let ts = timestamp (toISOString e);
          randomString = toString_hex (randomBytes e 4)
      in case new_URL e u of
           Inl err \<Rightarrow> Inl err
         | Inr urlObj \<Rightarrow> Inr (ts @ ''-'' @ randomString @ ''-'' @ baseName urlObj @ ''.'' @ extension))"


text \<open>The headers of the request: \<open>{ "User-Agent": ..., ...headers }\<close>; a caller's header
  replaces the default of the same name.\<close>

definition userAgent :: string where
  "userAgent = ''Mozilla/5.0 (Windows NT 10.0; Win64; x64) AppleWebKit/537.36 (KHTML, like Gecko) Chrome/120.0.0.0 Safari/537.36''"

definition request_headers :: "(string \<times> string) list option \<Rightarrow> (string \<times> string) list" where
  "request_headers hs =
     fold (\<lambda>(k, v). AList.update k v) (case hs of None \<Rightarrow> [] | Some l \<Rightarrow> l)
       [(''User-Agent'', userAgent)]"

text \<open>
  The \<open>switch\<close> over the output format: the content to persist, the content type and the
  file extension. (The \<open>default\<close> branch is unreachable: the format is one of the four.)
\<close>

definition processContent ::
  "'j env \<Rightarrow> 'j Response \<Rightarrow> outputFormat \<Rightarrow> thrown + (string \<times> string \<times> string)" where
  "processContent e response outputFormat =
     (case outputFormat of
        Html \<Rightarrow>
          (case res_text response of
             Inl err \<Rightarrow> Inl err
           | Inr body \<Rightarrow> Inr (body, ''text/html'', ''html''))
      | Json \<Rightarrow>
          (case res_json response of
             Inl err \<Rightarrow> Inl err
           | Inr jsonData \<Rightarrow> Inr (JSON_stringify e jsonData, ''application/json'', ''json''))
      | Txt \<Rightarrow>
          (case res_text response of
             Inl err \<Rightarrow> Inl err
           | Inr htmlForText \<Rightarrow>
               (case jsdom_body_text e htmlForText of
                  Inl err \<Rightarrow> Inl err
                | Inr textContent \<Rightarrow>
                    Inr (trim (collapse_whitespace
                                (case textContent of None \<Rightarrow> [] | Some t \<Rightarrow> t)),
                         ''text/plain'', ''txt'')))
      | Markdown \<Rightarrow>
          (case res_text response of
             Inl err \<Rightarrow> Inl err
           | Inr htmlForMarkdown \<Rightarrow>
               (case turndown e htmlForMarkdown of
                  Inl err \<Rightarrow> Inl err
                | Inr md \<Rightarrow> Inr (md, ''text/markdown'', ''md''))))"

definition private_ip_message :: "string \<Rightarrow> string" where
  "private_ip_message u =
     ''Fetcher blocked an attempt to fetch a private IP '' @ u @
     ''. This is to prevent a security vulnerability where a local MCP could fetch privileged local IPs and exfiltrate data.''"

text \<open>
  The \<open>try\<close> block of \<open>_fetchAndSave\<close>. The first thrown value ends it. A write that fails
  leaves the world as it was.
\<close>

definition fetchAndSave_try ::
  "'j env \<Rightarrow> RequestPayload \<Rightarrow> outputFormat \<Rightarrow> world \<Rightarrow> (thrown + string \<times> string) \<times> world" where
  "fetchAndSave_try e p outputFormat w =
     (case ensureDownloadDirExists e w of
        (Inl err, w1) \<Rightarrow> (Inl err, w1)
      | (Inr _, w1) \<Rightarrow>
          if isIpPrivate e (url p) then (Inl (Error (private_ip_message (url p))), w1)
          else
            (let hs = request_headers (headers p);
                 w2 = w1\<lparr>requests := requests w1 @ [(url p, hs)]\<rparr>
             in (case fetch e (url p) hs of
                   Inl err \<Rightarrow> (Inl err, w2)
                 | Inr response \<Rightarrow>
                     if \<not> ok response
                     then (Inl (Error (''HTTP error: '' @ decimal (status response))), w2)
                     else
                       (case processContent e response outputFormat of
                          Inl err \<Rightarrow> (Inl err, w2)
                        | Inr (contents, contentType, fileExtension) \<Rightarrow>
                            (case generateUniqueFilename e (url p) fileExtension of
                               Inl err \<Rightarrow> (Inl err, w2)
                             | Inr filename \<Rightarrow>
                                 (let filePath = path_join e (downloadDir e) filename
                                  in (case writeFile e filePath contents of
                                        Some err \<Rightarrow> (Inl err, w2)
                                      | None \<Rightarrow>
                                          (Inr (filePath, contentType),
                                           w2\<lparr>files := ((files w2)(filePath \<mapsto> contents))\<rparr>))))))))"

text \<open>
  \<open>_fetchAndSave\<close>: the \<open>catch\<close> clause throws a new \<open>Error\<close> in both of its branches, so the
  function either returns the path and the content type or throws an \<open>Error\<close>, whose
  message is the \<open>Inl\<close> value here.
\<close>

definition fetchAndSave ::
  "'j env \<Rightarrow> RequestPayload \<Rightarrow> outputFormat \<Rightarrow> world \<Rightarrow> (string + string \<times> string) \<times> world" where
  "fetchAndSave e p outputFormat w =
     (case fetchAndSave_try e p outputFormat w of
        (Inr saved, w') \<Rightarrow> (Inr saved, w')
      | (Inl (Error m), w') \<Rightarrow> (Inl (''Failed to fetch '' @ url p @ '': '' @ m), w')
      | (Inl NonError, w') \<Rightarrow> (Inl (''Failed to fetch '' @ url p @ '': Unknown error''), w'))"

text \<open>
  The four public operations (\<open>txt\<close> is named \<open>txt_op\<close> here). Each awaits \<open>_fetchAndSave\<close> inside a \<open>try\<close> whose \<open>catch\<close>
  returns the error result, so each returns a result in every case.
\<close>

definition html :: "'j env \<Rightarrow> RequestPayload \<Rightarrow> world \<Rightarrow> FetchResult \<times> world" where
  "html e requestPayload w =
     (case fetchAndSave e requestPayload Html w of
        (Inr (filePath, contentType), w') \<Rightarrow>
          (\<lparr>content = [TextItem (''File saved to: '' @ filePath),
                       TextItem (''Content-Type: '' @ contentType)],
            isError = False\<rparr>, w')
      | (Inl message, w') \<Rightarrow> (\<lparr>content = [TextItem message], isError = True\<rparr>, w'))"

definition json :: "'j env \<Rightarrow> RequestPayload \<Rightarrow> world \<Rightarrow> FetchResult \<times> world" where
  "json e requestPayload w =
     (case fetchAndSave e requestPayload Json w of
        (Inr (filePath, contentType), w') \<Rightarrow>
          (\<lparr>content = [TextItem (''File saved to: '' @ filePath),
                       TextItem (''Content-Type: '' @ contentType)],
            isError = False\<rparr>, w')
      | (Inl message, w') \<Rightarrow> (\<lparr>content = [TextItem message], isError = True\<rparr>, w'))"

definition txt_op :: "'j env \<Rightarrow> RequestPayload \<Rightarrow> world \<Rightarrow> FetchResult \<times> world" where
  "txt_op e requestPayload w =
     (case fetchAndSave e requestPayload Txt w of
        (Inr (filePath, contentType), w') \<Rightarrow>
          (\<lparr>content = [TextItem (''File saved to: '' @ filePath),
                       TextItem (''Content-Type: '' @ contentType)],
            isError = False\<rparr>, w')
      | (Inl message, w') \<Rightarrow> (\<lparr>content = [TextItem message], isError = True\<rparr>, w'))"

definition markdown :: "'j env \<Rightarrow> RequestPayload \<Rightarrow> world \<Rightarrow> FetchResult \<times> world" where
  "markdown e requestPayload w =
     (case fetchAndSave e requestPayload Markdown w of
        (Inr (filePath, contentType), w') \<Rightarrow>
          (\<lparr>content = [TextItem (''File saved to: '' @ filePath),
                       TextItem (''Content-Type: '' @ contentType)],
            isError = False\<rparr>, w')
      | (Inl message, w') \<Rightarrow> (\<lparr>content = [TextItem message], isError = True\<rparr>, w'))"

text \<open>The operation of a format, to state a property of all four at once.\<close>

fun operation :: "outputFormat \<Rightarrow> 'j env \<Rightarrow> RequestPayload \<Rightarrow> world \<Rightarrow> FetchResult \<times> world" where
  "operation Html = html"
| "operation Json = json"
| "operation Txt = txt_op"
| "operation Markdown = markdown"


section \<open>A concrete environment\<close>

text \<open>
  The JSON values the examples below use: \<open>null\<close>, arrays, and the number \<open>Infinity\<close>, which
  \<open>JSON.parse\<close> (and so \<open>response.json()\<close>) gives for a numeral too large for a double, such
  as \<^verbatim>\<open>1e999\<close>. \<open>stringify ind v\<close> is the text \<open>JSON.stringify(v, null, 2)\<close> gives for \<open>v\<close> at the
  indentation \<open>ind\<close>: a number that is not finite is printed as \<open>null\<close>, an empty array as
  \<^verbatim>\<open>[]\<close>, and the elements of any other array each on a line of their own, two spaces deeper.
\<close>

datatype json =
    JNull
  | JInfinity
  | JArray "json list"

fun join :: "string \<Rightarrow> string list \<Rightarrow> string" where
  "join sep [] = []"
| "join sep [x] = x"
| "join sep (x # y # ys) = x @ sep @ join sep (y # ys)"

definition newline_indent :: "nat \<Rightarrow> string" where
  "newline_indent n = CHR 0x0A # replicate n CHR '' ''"

fun stringify :: "nat \<Rightarrow> json \<Rightarrow> string" where
  "stringify ind JNull = ''null''"
| "stringify ind JInfinity = ''null''"
| "stringify ind (JArray []) = ''[]''"
| "stringify ind (JArray (x # xs)) =
     ''['' @ newline_indent (ind + 2)
     @ join (CHR '','' # newline_indent (ind + 2)) (map (stringify (ind + 2)) (x # xs))
     @ newline_indent ind @ '']''"

text \<open>
  The environment the repository's unit tests set up (\<^verbatim>\<open>fetcher.unit.test.ts\<close>): the download
  directory \<^verbatim>\<open>/mock/.downloaded_files\<close>, the clock fixed at 2023-10-27T10:30:00.000Z, the
  random bytes a1 b2 c3 d4, \<open>mkdir\<close> and \<open>writeFile\<close> resolving, the private-IP check answering
  no, \<open>fetch\<close> resolving to an HTML page, and the mocked results of JSDOM and Turndown.
  \<open>new URL\<close> is not mocked there: the table gives the pathname and hostname of the URLs used
  below, and every other string is taken as invalid.
\<close>

definition mockHtml :: string where
  "mockHtml = ''<html><head><title>Test Page</title><script>console.log(1);</script><style>body { color: red; }</style></head><body><h1>Hello World</h1><p>This is a test paragraph.</p></body></html>''"

definition htmlResponse :: "json Response" where
  "htmlResponse = \<lparr>ok = True, status = 200, res_text = Inr mockHtml,
     res_json = Inl (Error ''Unexpected token < in JSON at position 0'')\<rparr>"

definition url_table :: "(string \<times> URL) list" where
  "url_table =
     [(''https://example.com'', \<lparr>pathname = ''/'', hostname = ''example.com''\<rparr>),
      (''https://example.com/path/to/page'',
         \<lparr>pathname = ''/path/to/page'', hostname = ''example.com''\<rparr>),
      (''https://example.com/file with spaces & special: chars!'',
         \<lparr>pathname = ''/file%20with%20spaces%20&%20special:%20chars!'',
          hostname = ''example.com''\<rparr>),
      (''http://192.168.1.1/'', \<lparr>pathname = ''/'', hostname = ''192.168.1.1''\<rparr>)]"

definition env0 :: "json env" where
  "env0 =
     \<lparr>downloadDir = ''/mock/.downloaded_files'',
      mkdir = (\<lambda>d. None),
      writeFile = (\<lambda>f c. None),
      isIpPrivate = (\<lambda>u. False),
      fetch = (\<lambda>u hs. Inr htmlResponse),
      JSON_stringify = stringify 0,
      jsdom_body_text = (\<lambda>h. Inr (Some ''Hello World This is a test paragraph.'')),
      turndown = (\<lambda>h. Inr (''# Hello World'' @ [CHR 0x0A, CHR 0x0A] @ ''This is a test paragraph.'')),
      new_URL = (\<lambda>u. case map_of url_table u of
                        Some urlObj \<Rightarrow> Inr urlObj
                      | None \<Rightarrow> Inl (Error ''Invalid URL'')),
      path_join = (\<lambda>d f. d @ ''/'' @ f),
      toISOString = ''2023-10-27T10:30:00.000Z'',
      randomBytes = (\<lambda>n. take n [0xa1, 0xb2, 0xc3, 0xd4])\<rparr>"

definition world0 :: world where
  "world0 = \<lparr>dirs = {}, files = Map.empty, requests = []\<rparr>"


text \<open>
  The private-ip library classifies the text of an IP address, and answers \<open>undefined\<close> for a
  string that is not one, a url among them. On the strings used below: yes for the address
  192.168.1.1, no for everything else.
\<close>

definition private_ip_of_address :: "string \<Rightarrow> bool" where
  "private_ip_of_address u = (u = ''192.168.1.1'')"

text \<open>
  Two requests: the one of the unit tests, and one to an address of a private network.
\<close>

definition privateRequest :: RequestPayload where
  "privateRequest = \<lparr>url = ''http://192.168.1.1/'', headers = None\<rparr>"

definition mockRequest :: RequestPayload where
  "mockRequest = \<lparr>url = ''https://example.com'', headers = Some [(''Custom-Header'', ''Value'')]\<rparr>"

text \<open>A page whose body holds a script and a single space.\<close>

definition blankHtml :: string where
  "blankHtml = ''<html><body><script>var x = 1;</script> </body></html>''"

text \<open>The stages of the pipeline, and what it is for one of them to fail.\<close>

definition directory_creation_fails :: "'j env \<Rightarrow> bool" where
  "directory_creation_fails e = (mkdir e (downloadDir e) \<noteq> None)"

definition transport_fails :: "'j env \<Rightarrow> RequestPayload \<Rightarrow> bool" where
  "transport_fails e p =
     (case fetch e (url p) (request_headers (headers p)) of Inl err \<Rightarrow> True | Inr response \<Rightarrow> False)"

definition status_not_ok :: "'j env \<Rightarrow> RequestPayload \<Rightarrow> bool" where
  "status_not_ok e p =
     (case fetch e (url p) (request_headers (headers p)) of
        Inl err \<Rightarrow> False | Inr response \<Rightarrow> \<not> ok response)"

definition transformation_fails :: "'j env \<Rightarrow> RequestPayload \<Rightarrow> outputFormat \<Rightarrow> bool" where
  "transformation_fails e p fmt =
     (case fetch e (url p) (request_headers (headers p)) of
        Inl err \<Rightarrow> False
      | Inr response \<Rightarrow>
          (case processContent e response fmt of Inl err \<Rightarrow> True | Inr r \<Rightarrow> False))"

definition filename_generation_fails :: "'j env \<Rightarrow> RequestPayload \<Rightarrow> bool" where
  "filename_generation_fails e p = (case new_URL e (url p) of Inl err \<Rightarrow> True | Inr u \<Rightarrow> False)"

definition file_write_fails :: "'j env \<Rightarrow> RequestPayload \<Rightarrow> outputFormat \<Rightarrow> bool" where
  "file_write_fails e p fmt =
     (case fetch e (url p) (request_headers (headers p)) of
        Inl err \<Rightarrow> False
      | Inr response \<Rightarrow>
          (case processContent e response fmt of
             Inl err \<Rightarrow> False
           | Inr (contents, contentType, fileExtension) \<Rightarrow>
               (case generateUniqueFilename e (url p) fileExtension of
                  Inl err \<Rightarrow> False
                | Inr filename \<Rightarrow>
                    writeFile e (path_join e (downloadDir e) filename) contents \<noteq> None)))"

definition some_stage_fails :: "'j env \<Rightarrow> RequestPayload \<Rightarrow> outputFormat \<Rightarrow> bool" where
  "some_stage_fails e p fmt =
     (directory_creation_fails e \<or> isIpPrivate e (url p) \<or> transport_fails e p
      \<or> status_not_ok e p \<or> transformation_fails e p fmt \<or> filename_generation_fails e p
      \<or> file_write_fails e p fmt)"

section \<open>Properties of the string operations\<close>

lemma split_js_nonempty: "split_js sep s \<noteq> []"
  by (induction s) (auto split: list.splits)

lemma split_js_no_sep: "sep \<notin> set s \<Longrightarrow> split_js sep s = [s]"
  by (induction s) auto

lemma split_js_append: "split_js sep (xs @ sep # ys) = split_js sep xs @ split_js sep ys"
  by (induction xs) (auto split: list.splits simp: split_js_nonempty)

lemma split_js_seps: "split_js sep (replicate n sep) = replicate (Suc n) []"
  by (induction n) auto

lemma split_js_seg_seps:
  "sep \<notin> set seg \<Longrightarrow> split_js sep (seg @ replicate n sep) = seg # replicate n []"
  by (induction seg) (auto simp: split_js_seps)

lemma filter_nonempty_replicate: "filter (\<lambda>s. s \<noteq> []) (replicate n []) = []"
  by (induction n) auto

lemma last_part:
  assumes "pre = [] \<or> last pre = sep" "seg \<noteq> []" "sep \<notin> set seg"
  shows "filter (\<lambda>s. s \<noteq> []) (split_js sep (pre @ seg @ replicate n sep)) \<noteq> [] \<and>
         last (filter (\<lambda>s. s \<noteq> []) (split_js sep (pre @ seg @ replicate n sep))) = seg"
proof (cases "pre = []")
  case True
  then show ?thesis using assms by (simp add: split_js_seg_seps filter_nonempty_replicate)
next
  case False
  with assms(1) obtain pre' where "pre = pre' @ [sep]"
    by (metis append_butlast_last_id)
  then have "pre @ seg @ replicate n sep = pre' @ sep # (seg @ replicate n sep)" by simp
  moreover have "split_js sep (seg @ replicate n sep) = seg # replicate n []"
    using assms(3) by (rule split_js_seg_seps)
  ultimately show ?thesis using assms(2)
    by (simp add: split_js_append filter_nonempty_replicate)
qed

lemma no_parts:
  assumes "set s \<subseteq> {sep}"
  shows "filter (\<lambda>s. s \<noteq> []) (split_js sep s) = []"
proof -
  from assms have "s = replicate (length s) sep"
    by (induction s) auto
  then show ?thesis
    by (metis split_js_seps filter_nonempty_replicate)
qed

lemma filter_digits:
  "list_all is_digit s \<Longrightarrow>
   filter (\<lambda>c. c \<noteq> CHR ''-'' \<and> c \<noteq> CHR '':'' \<and> c \<noteq> CHR ''.'') s = s"
  by (induction s) (auto simp: is_digit_def)

lemma timestamp_iso:
  assumes "list_all is_digit (yyyy @ mo @ dd @ hh @ mi @ ss @ ms)"
    and "length yyyy = 4" "length mo = 2" "length dd = 2"
    and "length hh = 2" "length mi = 2" "length ss = 2"
  shows "timestamp (yyyy @ ''-'' @ mo @ ''-'' @ dd @ ''T'' @ hh @ '':'' @ mi @ '':'' @ ss @ ''.'' @ ms @ ''Z'')
         = yyyy @ mo @ dd @ ''T'' @ hh @ mi @ ss @ ''Z''"
proof -
  define A where "A = yyyy @ mo @ dd @ ''T'' @ hh @ mi @ ss"
  have len: "length A = 15"
    using assms(2-) by (simp add: A_def)
  have "filter (\<lambda>c. c \<notin> set ''-:.'')
          (yyyy @ ''-'' @ mo @ ''-'' @ dd @ ''T'' @ hh @ '':'' @ mi @ '':'' @ ss @ ''.'' @ ms @ ''Z'')
        = A @ ms @ ''Z''"
    using assms(1) by (simp add: filter_digits A_def)
  then have "timestamp (yyyy @ ''-'' @ mo @ ''-'' @ dd @ ''T'' @ hh @ '':'' @ mi @ '':'' @ ss @ ''.'' @ ms @ ''Z'')
        = take 15 (A @ ms @ ''Z'') @ ''Z''"
    by (simp only: timestamp_def)
  also have "\<dots> = A @ ''Z''"
    using len by simp
  finally show ?thesis
    by (simp add: A_def)
qed

lemma hex_digit_in: "hex_digit n \<in> set ''0123456789abcdef''"
  unfolding hex_digit_def by (rule nth_mem) simp

lemma hex_byte_chars: "set (hex_byte b) \<subseteq> set ''0123456789abcdef''"
  using hex_digit_in by (simp add: hex_byte_def)

lemma toString_hex_length: "length (toString_hex bs) = 2 * length bs"
  by (induction bs) (simp_all add: toString_hex_def hex_byte_def)

lemma toString_hex_chars: "set (toString_hex bs) \<subseteq> set ''0123456789abcdef''"
proof
  fix c assume "c \<in> set (toString_hex bs)"
  then obtain b where "c \<in> set (hex_byte b)"
    by (auto simp: toString_hex_def)
  then show "c \<in> set ''0123456789abcdef''"
    using hex_byte_chars by blast
qed


section \<open>Properties of the pipeline\<close>

lemma operation_unfold:
  "operation fmt e p w =
     (case fetchAndSave e p fmt w of
        (Inr (filePath, contentType), w') \<Rightarrow>
          (\<lparr>content = [TextItem (''File saved to: '' @ filePath),
                       TextItem (''Content-Type: '' @ contentType)],
            isError = False\<rparr>, w')
      | (Inl message, w') \<Rightarrow> (\<lparr>content = [TextItem message], isError = True\<rparr>, w'))"
  by (cases fmt) (simp_all add: html_def json_def txt_op_def markdown_def)

lemma fetchAndSave_mkdir_fails:
  assumes "mkdir e (downloadDir e) = Some err"
  shows "fetchAndSave e p fmt w =
           (Inl (''Failed to fetch '' @ url p @ '': Failed to create download directory: ''
                 @ message_in_template err), w)"
  using assms by (simp add: fetchAndSave_def fetchAndSave_try_def ensureDownloadDirExists_def)

lemma fetchAndSave_private:
  assumes "mkdir e (downloadDir e) = None" "isIpPrivate e (url p)"
  shows "fetchAndSave e p fmt w =
           (Inl (''Failed to fetch '' @ url p @ '': '' @ private_ip_message (url p)),
            w\<lparr>dirs := insert (downloadDir e) (dirs w)\<rparr>)"
  using assms by (simp add: fetchAndSave_def fetchAndSave_try_def ensureDownloadDirExists_def)

lemma fetchAndSave_http_error:
  assumes "mkdir e (downloadDir e) = None" "\<not> isIpPrivate e (url p)"
    and "fetch e (url p) (request_headers (headers p)) = Inr response" "\<not> ok response"
  shows "fetchAndSave e p fmt w =
           (Inl (''Failed to fetch '' @ url p @ '': HTTP error: '' @ decimal (status response)),
            w\<lparr>dirs := insert (downloadDir e) (dirs w),
              requests := requests w @ [(url p, request_headers (headers p))]\<rparr>)"
  using assms
  by (simp add: fetchAndSave_def fetchAndSave_try_def ensureDownloadDirExists_def Let_def)

lemma fetchAndSave_try_success:
  assumes "fetchAndSave_try e p fmt w = (Inr (filePath, contentType), w')"
  shows "mkdir e (downloadDir e) = None \<and> \<not> isIpPrivate e (url p) \<and>
         (\<exists>response contents fileExtension filename.
            fetch e (url p) (request_headers (headers p)) = Inr response \<and> ok response \<and>
            processContent e response fmt = Inr (contents, contentType, fileExtension) \<and>
            generateUniqueFilename e (url p) fileExtension = Inr filename \<and>
            filePath = path_join e (downloadDir e) filename \<and>
            writeFile e filePath contents = None \<and>
            w' = w\<lparr>dirs := insert (downloadDir e) (dirs w),
                   requests := requests w @ [(url p, request_headers (headers p))],
                   files := (files w)(filePath \<mapsto> contents)\<rparr>)"
  using assms
  by (auto simp: fetchAndSave_try_def ensureDownloadDirExists_def Let_def
           split: option.splits sum.splits if_splits prod.splits)

lemma fetchAndSave_try_failure_files:
  assumes "fetchAndSave_try e p fmt w = (Inl err, w')"
  shows "files w' = files w"
  using assms
  by (auto simp: fetchAndSave_try_def ensureDownloadDirExists_def Let_def
           split: option.splits sum.splits if_splits prod.splits)

lemma fetchAndSave_success_iff:
  "fetchAndSave e p fmt w = (Inr saved, w') \<longleftrightarrow> fetchAndSave_try e p fmt w = (Inr saved, w')"
  by (auto simp: fetchAndSave_def split: prod.splits sum.splits thrown.splits)

lemma fetchAndSave_failure:
  assumes "fetchAndSave e p fmt w = (Inl m, w')"
  shows "(\<exists>d. m = ''Failed to fetch '' @ url p @ '': '' @ d) \<and> files w' = files w"
  using assms fetchAndSave_try_failure_files
  by (fastforce simp: fetchAndSave_def split: prod.splits sum.splits thrown.splits)

lemma processContent_types:
  assumes "processContent e response fmt = Inr (contents, contentType, fileExtension)"
  shows "contentType = (case fmt of Html \<Rightarrow> ''text/html'' | Json \<Rightarrow> ''application/json''
                          | Txt \<Rightarrow> ''text/plain'' | Markdown \<Rightarrow> ''text/markdown'')
       \<and> fileExtension = (case fmt of Html \<Rightarrow> ''html'' | Json \<Rightarrow> ''json''
                          | Txt \<Rightarrow> ''txt'' | Markdown \<Rightarrow> ''md'')"
  using assms
  by (auto simp: processContent_def split: outputFormat.splits sum.splits)

lemma whitespace_only:
  assumes "list_all is_js_space t"
  shows "trim (collapse_whitespace t) = []"
proof (cases t)
  case Nil
  then show ?thesis by (simp add: trim_def)
next
  case (Cons c cs)
  from assms Cons have c: "is_js_space c"
    by simp
  from assms Cons have "\<forall>x\<in>set cs. is_js_space x"
    by (simp add: list_all_iff)
  then have d: "dropWhile is_js_space cs = []"
    by simp
  have "collapse_whitespace (c # cs) = CHR '' '' # collapse_whitespace (dropWhile is_js_space cs)"
    using c by simp
  also have "\<dots> = '' ''"
    unfolding d by simp
  finally show ?thesis
    using Cons
    by (simp add: trim_def is_js_space_def)
qed

lemma generateUniqueFilename_fails:
  "(\<exists>err. generateUniqueFilename e u ext = Inl err) \<longleftrightarrow> (\<exists>err. new_URL e u = Inl err)"
  by (auto simp: generateUniqueFilename_def Let_def split: sum.splits)

lemma fetchAndSave_try_fails_iff:
  "(\<exists>err. fst (fetchAndSave_try e p fmt w) = Inl err) \<longleftrightarrow> some_stage_fails e p fmt"
  unfolding some_stage_fails_def directory_creation_fails_def transport_fails_def
    status_not_ok_def transformation_fails_def filename_generation_fails_def file_write_fails_def
  by (auto simp: fetchAndSave_try_def ensureDownloadDirExists_def Let_def generateUniqueFilename_def
           split: option.splits sum.splits if_splits prod.splits)

lemma fetchAndSave_fails_iff:
  "(\<exists>m. fst (fetchAndSave e p fmt w) = Inl m) \<longleftrightarrow> some_stage_fails e p fmt"
proof -
  have "(\<exists>m. fst (fetchAndSave e p fmt w) = Inl m) \<longleftrightarrow>
        (\<exists>err. fst (fetchAndSave_try e p fmt w) = Inl err)"
    by (auto simp: fetchAndSave_def split: prod.splits sum.splits thrown.splits)
  then show ?thesis
    by (simp only: fetchAndSave_try_fails_iff)
qed

lemmas env0_eval =
  html_def json_def txt_op_def markdown_def fetchAndSave_def fetchAndSave_try_def
  ensureDownloadDirExists_def processContent_def generateUniqueFilename_def
  request_headers_def timestamp_def toString_hex_def hex_byte_def hex_digit_def
  baseName_def sanitize_def sanitize_char_def is_safe_char_def
  env0_def world0_def mockRequest_def htmlResponse_def url_table_def Let_def

lemma decimal_404: "decimal 404 = ''404''"
  by code_simp


section \<open>The claims\<close>

text \<open>
  C1. The claim asks that a request whose url has a host in a private range be answered with
  the private-IP error and that no file be written. The program hands the whole url string
  to the private-IP check (\<open>isIpPrivate(url)\<close>), which classifies IP addresses: it says yes
  for the address 192.168.1.1 and no for the url \<^verbatim>\<open>http://192.168.1.1/\<close>. So the request for
  that url is fetched and its body written to a file, with a success result. Only a request
  whose url is the bare address is blocked, and its message says \<open>a local MCP\<close>.
\<close>

theorem C1_private_host_not_blocked:
  "new_URL env0 ''http://192.168.1.1/'' = Inr \<lparr>pathname = ''/'', hostname = ''192.168.1.1''\<rparr>
   \<and> private_ip_of_address ''192.168.1.1''
   \<and> \<not> private_ip_of_address ''http://192.168.1.1/''
   \<and> html (env0\<lparr>isIpPrivate := private_ip_of_address\<rparr>) privateRequest world0 =
       (\<lparr>content =
          [TextItem ''File saved to: /mock/.downloaded_files/20231027T103000Z-a1b2c3d4-192_168_1_1.html'',
           TextItem ''Content-Type: text/html''],
         isError = False\<rparr>,
        \<lparr>dirs = {''/mock/.downloaded_files''},
         files = [''/mock/.downloaded_files/20231027T103000Z-a1b2c3d4-192_168_1_1.html'' \<mapsto> mockHtml],
         requests = [(''http://192.168.1.1/'', [(''User-Agent'', userAgent)])]\<rparr>)
   \<and> html (env0\<lparr>isIpPrivate := private_ip_of_address\<rparr>)
        \<lparr>url = ''192.168.1.1'', headers = None\<rparr> world0 =
       (\<lparr>content = [TextItem ''Failed to fetch 192.168.1.1: Fetcher blocked an attempt to fetch a private IP 192.168.1.1. This is to prevent a security vulnerability where a local MCP could fetch privileged local IPs and exfiltrate data.''],
         isError = True\<rparr>,
        \<lparr>dirs = {''/mock/.downloaded_files''}, files = Map.empty, requests = []\<rparr>)"
  by (simp add: env0_eval privateRequest_def private_ip_of_address_def private_ip_message_def)

text \<open>
  C2. The claim asks that a url that is not a valid absolute URL be rejected with a message
  containing \<open>Invalid URL format\<close> before any side effect. The program does not validate
  the url: for the request \<^verbatim>\<open>{ url: "not-a-valid-url" }\<close> of the repository's integration
  test it creates the download directory, hands the string to \<open>fetch\<close>, and reports what
  \<open>fetch\<close> throws (here the message of Node's \<open>fetch\<close> for an unparseable url) behind
  \<open>Failed to fetch not-a-valid-url: \<close>.
\<close>

theorem C2_invalid_url_not_validated:
  "new_URL env0 ''not-a-valid-url'' = Inl (Error ''Invalid URL'')
   \<and> html (env0\<lparr>fetch := \<lambda>u hs. Inl (Error ''Failed to parse URL from not-a-valid-url'')\<rparr>)
        \<lparr>url = ''not-a-valid-url'', headers = None\<rparr> world0 =
       (\<lparr>content = [TextItem ''Failed to fetch not-a-valid-url: Failed to parse URL from not-a-valid-url''],
         isError = True\<rparr>,
        \<lparr>dirs = {''/mock/.downloaded_files''}, files = Map.empty,
         requests = [(''not-a-valid-url'', [(''User-Agent'', userAgent)])]\<rparr>)
   \<and> \<not> sublist ''Invalid URL format''
         ''Failed to fetch not-a-valid-url: Failed to parse URL from not-a-valid-url''"
proof -
  have "\<not> sublist ''Invalid URL format''
         ''Failed to fetch not-a-valid-url: Failed to parse URL from not-a-valid-url''"
    by code_simp
  then show ?thesis
    by (simp add: env0_eval)
qed

text \<open>
  C3. Whenever a stage of the pipeline fails (directory creation, the private-IP block, the
  HTTP transport, a response that is not ok, the transformation, the generation of the
  filename, the file write), each of the four operations returns a result with \<open>isError\<close>
  true whose content is one text segment, which starts with \<open>Failed to fetch <url>: \<close> and so
  is not empty. An operation returns a result in every case: its \<open>catch\<close> clause returns.
\<close>

theorem C3_uniform_error_result:
  assumes "some_stage_fails e p fmt"
  shows "\<exists>d. fst (operation fmt e p w) =
               \<lparr>content = [TextItem (''Failed to fetch '' @ url p @ '': '' @ d)], isError = True\<rparr>"
proof -
  from assms obtain m where m: "fst (fetchAndSave e p fmt w) = Inl m"
    using fetchAndSave_fails_iff by blast
  then obtain w' where "fetchAndSave e p fmt w = (Inl m, w')"
    by (cases "fetchAndSave e p fmt w") simp
  moreover from this obtain d where "m = ''Failed to fetch '' @ url p @ '': '' @ d"
    using fetchAndSave_failure by blast
  ultimately show ?thesis
    by (auto simp: operation_unfold)
qed

theorem C3_uniform_error_result_witness:
  "fst (json env0 mockRequest world0) =
     \<lparr>content = [TextItem ''Failed to fetch https://example.com: Unexpected token < in JSON at position 0''],
      isError = True\<rparr>
   \<and> fst (html (env0\<lparr>fetch := \<lambda>u hs. Inl (Error ''Network error'')\<rparr>) mockRequest world0) =
     \<lparr>content = [TextItem ''Failed to fetch https://example.com: Network error''], isError = True\<rparr>
   \<and> fst (html (env0\<lparr>fetch := \<lambda>u hs. Inl NonError\<rparr>) mockRequest world0) =
     \<lparr>content = [TextItem ''Failed to fetch https://example.com: Unknown error''], isError = True\<rparr>
   \<and> fst (html (env0\<lparr>writeFile := \<lambda>f c. Some (Error ''Disk full'')\<rparr>) mockRequest world0) =
     \<lparr>content = [TextItem ''Failed to fetch https://example.com: Disk full''], isError = True\<rparr>"
proof -
  have 1: "some_stage_fails env0 mockRequest Json"
    by (simp add: some_stage_fails_def transformation_fails_def processContent_def env0_def
          htmlResponse_def)
  have 2: "some_stage_fails (env0\<lparr>fetch := \<lambda>u hs. Inl (Error ''Network error'')\<rparr>) mockRequest Html"
    by (simp add: some_stage_fails_def transport_fails_def)
  have 3: "some_stage_fails (env0\<lparr>fetch := \<lambda>u hs. Inl NonError\<rparr>) mockRequest Html"
    by (simp add: some_stage_fails_def transport_fails_def)
  have 4: "some_stage_fails (env0\<lparr>writeFile := \<lambda>f c. Some (Error ''Disk full'')\<rparr>) mockRequest Html"
    by (simp add: some_stage_fails_def file_write_fails_def env0_eval)
  show ?thesis
    using C3_uniform_error_result [OF 1, of world0] C3_uniform_error_result [OF 2, of world0]
      C3_uniform_error_result [OF 3, of world0] C3_uniform_error_result [OF 4, of world0]
    by (simp add: env0_eval)
qed

text \<open>
  C4. The content of a result is never empty, and a result with \<open>isError\<close> false has exactly
  two text segments in this order: \<open>File saved to: \<close> followed by the path (the download
  directory joined with the generated filename, at which a file has been written), then
  \<open>Content-Type: \<close> followed by the content type of the format (\<open>text/html\<close>,
  \<open>application/json\<close>, \<open>text/plain\<close>, \<open>text/markdown\<close>).
\<close>

theorem C4_success_result:
  "content (fst (operation fmt e p w)) \<noteq> []
   \<and> (\<not> isError (fst (operation fmt e p w)) \<longrightarrow>
        (\<exists>filename.
           generateUniqueFilename e (url p)
             (case fmt of Html \<Rightarrow> ''html'' | Json \<Rightarrow> ''json'' | Txt \<Rightarrow> ''txt'' | Markdown \<Rightarrow> ''md'')
             = Inr filename
           \<and> fst (operation fmt e p w) =
               \<lparr>content =
                  [TextItem (''File saved to: '' @ path_join e (downloadDir e) filename),
                   TextItem (''Content-Type: '' @
                     (case fmt of Html \<Rightarrow> ''text/html'' | Json \<Rightarrow> ''application/json''
                        | Txt \<Rightarrow> ''text/plain'' | Markdown \<Rightarrow> ''text/markdown''))],
                isError = False\<rparr>
           \<and> files (snd (operation fmt e p w)) (path_join e (downloadDir e) filename) \<noteq> None))"
proof (cases "fetchAndSave e p fmt w")
  case (Pair r w')
  show ?thesis
  proof (cases r)
    case (Inl m)
    with Pair show ?thesis by (simp add: operation_unfold)
  next
    case (Inr saved)
    obtain filePath contentType where saved: "saved = (filePath, contentType)"
      by (cases saved)
    with Pair Inr have "fetchAndSave_try e p fmt w = (Inr (filePath, contentType), w')"
      by (simp add: fetchAndSave_success_iff)
    from fetchAndSave_try_success [OF this]
    obtain response contents fileExtension filename where
      pc: "processContent e response fmt = Inr (contents, contentType, fileExtension)" and
      fn: "generateUniqueFilename e (url p) fileExtension = Inr filename" and
      fp: "filePath = path_join e (downloadDir e) filename" and
      w': "w' = w\<lparr>dirs := insert (downloadDir e) (dirs w),
                   requests := requests w @ [(url p, request_headers (headers p))],
                   files := (files w)(filePath \<mapsto> contents)\<rparr>"
      by blast
    from processContent_types [OF pc] fn fp w' Pair Inr saved show ?thesis
      by (auto simp: operation_unfold)
  qed
qed

theorem C4_success_result_witness:
  "fst (html env0 mockRequest world0) =
     \<lparr>content =
        [TextItem ''File saved to: /mock/.downloaded_files/20231027T103000Z-a1b2c3d4-example_com.html'',
         TextItem ''Content-Type: text/html''],
      isError = False\<rparr>
   \<and> files (snd (html env0 mockRequest world0))
        ''/mock/.downloaded_files/20231027T103000Z-a1b2c3d4-example_com.html'' = Some mockHtml"
proof -
  have ok: "\<not> isError (fst (operation Html env0 mockRequest world0))"
    by (simp add: env0_eval)
  from C4_success_result [of Html env0 mockRequest world0] ok
  show ?thesis
    by (simp add: env0_eval)
qed

text \<open>
  C5. With the clock and the random source fixed, the generated filename is determined by
  the url and the extension (two environments with the same clock, random bytes and URL parser
  give the same filename): for a clock whose ISO text is \<open>YYYY-MM-DDTHH:MM:SS.mmmZ\<close> and a
  random source that gives four bytes, it is \<open>YYYYMMDDTHHMMSSZ\<close>, a hyphen, the eight
  hexadecimal digits of the four bytes, a hyphen, the base name of the parsed url (at most
  50 characters), a dot and the extension. The example of the claim (clock
  2023-10-27T10:30:00Z, random bytes a1 b2 c3 d4, url \<^verbatim>\<open>https://example.com/path/to/page\<close>,
  extension \<^verbatim>\<open>html\<close>) is the theorem after this one.
\<close>

theorem C5_generateUniqueFilename_format:
  assumes "new_URL e u = Inr urlObj"
    and "toISOString e =
           yyyy @ ''-'' @ mo @ ''-'' @ dd @ ''T'' @ hh @ '':'' @ mi @ '':'' @ ss @ ''.'' @ ms @ ''Z''"
    and "list_all is_digit (yyyy @ mo @ dd @ hh @ mi @ ss @ ms)"
    and "length yyyy = 4" "length mo = 2" "length dd = 2"
    and "length hh = 2" "length mi = 2" "length ss = 2"
    and "length (randomBytes e 4) = 4"
  shows "generateUniqueFilename e u extension =
           Inr (yyyy @ mo @ dd @ ''T'' @ hh @ mi @ ss @ ''Z'' @ ''-''
                @ toString_hex (randomBytes e 4) @ ''-'' @ baseName urlObj @ ''.'' @ extension)
         \<and> length (toString_hex (randomBytes e 4)) = 8
         \<and> set (toString_hex (randomBytes e 4)) \<subseteq> set ''0123456789abcdef''
         \<and> length (baseName urlObj) \<le> 50
         \<and> (toISOString e' = toISOString e \<and> randomBytes e' 4 = randomBytes e 4
              \<and> new_URL e' u = new_URL e u
              \<longrightarrow> generateUniqueFilename e' u extension = generateUniqueFilename e u extension)"
proof -
  have "timestamp (toISOString e) = yyyy @ mo @ dd @ ''T'' @ hh @ mi @ ss @ ''Z''"
    unfolding assms(2) using assms(3-9) by (rule timestamp_iso)
  then have "generateUniqueFilename e u extension =
           Inr (yyyy @ mo @ dd @ ''T'' @ hh @ mi @ ss @ ''Z'' @ ''-''
                @ toString_hex (randomBytes e 4) @ ''-'' @ baseName urlObj @ ''.'' @ extension)"
    using assms(1) by (simp add: generateUniqueFilename_def)
  moreover have "length (toString_hex (randomBytes e 4)) = 8"
    using assms(10) by (simp add: toString_hex_length)
  moreover have "length (baseName urlObj) \<le> 50"
    by (simp add: baseName_def Let_def)
  moreover have "toISOString e' = toISOString e \<and> randomBytes e' 4 = randomBytes e 4
              \<and> new_URL e' u = new_URL e u
              \<longrightarrow> generateUniqueFilename e' u extension = generateUniqueFilename e u extension"
    by (simp add: generateUniqueFilename_def)
  ultimately show ?thesis
    using toString_hex_chars by blast
qed

theorem C5_generateUniqueFilename_example:
  "toISOString env0 = ''2023-10-27T10:30:00.000Z''
   \<and> toString_hex (randomBytes env0 4) = ''a1b2c3d4''
   \<and> generateUniqueFilename env0 ''https://example.com/path/to/page'' ''html''
       = Inr ''20231027T103000Z-a1b2c3d4-page.html''"
proof -
  have u: "new_URL env0 ''https://example.com/path/to/page''
             = Inr \<lparr>pathname = ''/path/to/page'', hostname = ''example.com''\<rparr>"
    by (simp add: env0_def url_table_def)
  have iso: "toISOString env0 =
      ''2023'' @ ''-'' @ ''10'' @ ''-'' @ ''27'' @ ''T'' @ ''10'' @ '':'' @ ''30'' @ '':'' @ ''00'' @ ''.'' @ ''000'' @ ''Z''"
    by (simp add: env0_def)
  have dig: "list_all is_digit (''2023'' @ ''10'' @ ''27'' @ ''10'' @ ''30'' @ ''00'' @ ''000'')"
    by (simp add: is_digit_def)
  have r: "length (randomBytes env0 4) = 4"
    by (simp add: env0_def)
  have hex: "toString_hex (randomBytes env0 4) = ''a1b2c3d4''"
    by (simp add: env0_def toString_hex_def hex_byte_def hex_digit_def)
  have base: "baseName \<lparr>pathname = ''/path/to/page'', hostname = ''example.com''\<rparr> = ''page''"
    by (simp add: baseName_def sanitize_def sanitize_char_def is_safe_char_def)
  have "generateUniqueFilename env0 ''https://example.com/path/to/page'' ''html''
       = Inr ''20231027T103000Z-a1b2c3d4-page.html''"
    using C5_generateUniqueFilename_format
      [OF u iso dig _ _ _ _ _ _ r, where extension = "''html''" and e' = env0]
    by (simp add: hex base)
  then show ?thesis
    by (simp add: hex) (simp add: env0_def)
qed

text \<open>
  C6. The base name of the generated filename. When the pathname of the parsed url ends in
  a non-empty segment \<open>seg\<close> (followed by slashes only), the base name is \<open>seg\<close> with every
  character outside \<open>[A-Za-z0-9_-]\<close> replaced by an underscore, one for one, cut to 50
  characters. When the pathname has no non-empty segment, the base name is the hostname
  sanitized and cut the same way. The segment is the one of the parsed url, in which a
  character such as a space is already percent-encoded.
\<close>

theorem C6_baseName_sanitized:
  "(pathname u = pre @ seg @ replicate n CHR ''/'' \<and> (pre = [] \<or> last pre = CHR ''/'')
      \<and> seg \<noteq> [] \<and> CHR ''/'' \<notin> set seg
      \<longrightarrow> baseName u = take 50 (sanitize seg))
   \<and> (set (pathname u) \<subseteq> {CHR ''/''} \<longrightarrow> baseName u = take 50 (sanitize (hostname u)))
   \<and> length (sanitize s) = length s
   \<and> (\<forall>i < length s. sanitize s ! i = (if is_safe_char (s ! i) then s ! i else CHR ''_''))"
proof (intro conjI impI allI)
  assume a: "pathname u = pre @ seg @ replicate n CHR ''/'' \<and> (pre = [] \<or> last pre = CHR ''/'')
      \<and> seg \<noteq> [] \<and> CHR ''/'' \<notin> set seg"
  then have "filter (\<lambda>s. s \<noteq> []) (split_js CHR ''/'' (pathname u)) \<noteq> [] \<and>
         last (filter (\<lambda>s. s \<noteq> []) (split_js CHR ''/'' (pathname u))) = seg"
    using last_part [of pre "CHR ''/''" seg n] by simp
  then show "baseName u = take 50 (sanitize seg)"
    by (simp add: baseName_def Let_def)
next
  assume "set (pathname u) \<subseteq> {CHR ''/''}"
  then have "filter (\<lambda>s. s \<noteq> []) (split_js CHR ''/'' (pathname u)) = []"
    by (rule no_parts)
  then show "baseName u = take 50 (sanitize (hostname u))"
    by (simp add: baseName_def Let_def)
next
  show "length (sanitize s) = length s"
    by (simp add: sanitize_def)
next
  fix i assume "i < length s"
  then show "sanitize s ! i = (if is_safe_char (s ! i) then s ! i else CHR ''_'')"
    by (simp add: sanitize_def sanitize_char_def)
qed

theorem C6_baseName_examples:
  "baseName \<lparr>pathname = ''/file%20with%20spaces%20&%20special:%20chars!'', hostname = ''example.com''\<rparr>
     = ''file_20with_20spaces_20__20special__20chars_''
   \<and> baseName \<lparr>pathname = ''/'', hostname = ''example.com''\<rparr> = ''example_com''
   \<and> baseName \<lparr>pathname = ''/docs/'' @ replicate 60 CHR ''a'' @ ''/'', hostname = ''example.com''\<rparr>
     = replicate 50 CHR ''a''"
proof -
  let ?u1 = "\<lparr>pathname = ''/file%20with%20spaces%20&%20special:%20chars!'', hostname = ''example.com''\<rparr>"
  let ?u2 = "\<lparr>pathname = ''/'', hostname = ''example.com''\<rparr>"
  let ?u3 = "\<lparr>pathname = ''/docs/'' @ replicate 60 CHR ''a'' @ ''/'', hostname = ''example.com''\<rparr>"
  have 1: "baseName ?u1 = take 50 (sanitize ''file%20with%20spaces%20&%20special:%20chars!'')"
    using C6_baseName_sanitized [of ?u1 "''/''" "''file%20with%20spaces%20&%20special:%20chars!''" 0]
    by simp
  have 2: "baseName ?u2 = take 50 (sanitize ''example.com'')"
    using C6_baseName_sanitized [of ?u2] by simp
  have 3: "baseName ?u3 = take 50 (sanitize (replicate 60 CHR ''a''))"
    using C6_baseName_sanitized [of ?u3 "''/docs/''" "replicate 60 CHR ''a''" 1]
    by simp
  have 4: "sanitize (replicate 60 CHR ''a'') = replicate 60 CHR ''a''"
    by (simp add: sanitize_def sanitize_char_def is_safe_char_def)
  show ?thesis
    unfolding 1 2 3 4 by (simp add: sanitize_def sanitize_char_def is_safe_char_def)
qed

text \<open>
  C7. For every request that gets an HTTP response that is not ok, each of the four operations
  returns the error result with the single message \<open>Failed to fetch <url>: HTTP error: <status>\<close>
  and writes no file. (A response exists when the directory was created, the url was not
  blocked and \<open>fetch\<close> resolved.)
\<close>

theorem C7_http_error:
  assumes "mkdir e (downloadDir e) = None" and "\<not> isIpPrivate e (url p)"
    and "fetch e (url p) (request_headers (headers p)) = Inr response" and "\<not> ok response"
  shows "fst (operation fmt e p w) =
           \<lparr>content = [TextItem (''Failed to fetch '' @ url p @ '': HTTP error: ''
                                  @ decimal (status response))],
            isError = True\<rparr>
         \<and> files (snd (operation fmt e p w)) = files w"
  using fetchAndSave_http_error [OF assms, of fmt w]
  by (simp add: operation_unfold)

theorem C7_http_error_witness:
  "fst (html (env0\<lparr>fetch := \<lambda>u hs. Inr (htmlResponse\<lparr>ok := False, status := 404\<rparr>)\<rparr>)
          mockRequest world0) =
     \<lparr>content = [TextItem ''Failed to fetch https://example.com: HTTP error: 404''],
      isError = True\<rparr>
   \<and> files (snd (html (env0\<lparr>fetch := \<lambda>u hs. Inr (htmlResponse\<lparr>ok := False, status := 404\<rparr>)\<rparr>)
          mockRequest world0)) = Map.empty"
proof -
  let ?e = "env0\<lparr>fetch := \<lambda>u hs. Inr (htmlResponse\<lparr>ok := False, status := 404\<rparr>)\<rparr>"
  have 1: "mkdir ?e (downloadDir ?e) = None" by (simp add: env0_def)
  have 2: "\<not> isIpPrivate ?e (url mockRequest)" by (simp add: env0_def)
  have 3: "fetch ?e (url mockRequest) (request_headers (headers mockRequest))
             = Inr (htmlResponse\<lparr>ok := False, status := 404\<rparr>)" by simp
  have 4: "\<not> ok (htmlResponse\<lparr>ok := False, status := 404\<rparr>)" by simp
  show ?thesis
    using C7_http_error [OF 1 2 3 4, of Html world0]
    by (simp add: decimal_404 mockRequest_def world0_def)
qed

text \<open>
  C8 (as amended). The claim gives the message of an operation as
  \<open>Failed to create download directory: <reason>\<close>. That is the message
  \<open>ensureDownloadDirExists\<close> throws; \<open>_fetchAndSave\<close> catches it and wraps it as every other
  error. What holds: when the creation of the download directory fails with an \<open>Error\<close> whose
  message is \<open>reason\<close>, each of the four operations returns \<open>isError\<close> true with the single
  message \<open>Failed to fetch <url>: Failed to create download directory: <reason>\<close>, and the
  world is unchanged.
\<close>

theorem C8_directory_error_wrapped:
  assumes "mkdir e (downloadDir e) = Some (Error reason)"
  shows "operation fmt e p w =
           (\<lparr>content = [TextItem (''Failed to fetch '' @ url p
                @ '': Failed to create download directory: '' @ reason)],
             isError = True\<rparr>, w)"
  using fetchAndSave_mkdir_fails [OF assms, of p fmt w]
  by (simp add: operation_unfold)

theorem C8_directory_error_wrapped_witness:
  "html (env0\<lparr>mkdir := \<lambda>d. Some (Error ''Permission denied'')\<rparr>) mockRequest world0 =
     (\<lparr>content = [TextItem ''Failed to fetch https://example.com: Failed to create download directory: Permission denied''],
       isError = True\<rparr>, world0)"
proof -
  let ?e = "env0\<lparr>mkdir := \<lambda>d. Some (Error ''Permission denied'')\<rparr>"
  have "mkdir ?e (downloadDir ?e) = Some (Error ''Permission denied'')" by simp
  from C8_directory_error_wrapped [OF this, of Html mockRequest world0]
  show ?thesis by (simp add: mockRequest_def)
qed

theorem C8_message_counterexample:
  "fst (html (env0\<lparr>mkdir := \<lambda>d. Some (Error ''Permission denied'')\<rparr>) mockRequest world0)
     \<noteq> \<lparr>content = [TextItem ''Failed to create download directory: Permission denied''],
         isError = True\<rparr>"
  by (simp add: html_def fetchAndSave_def fetchAndSave_try_def ensureDownloadDirExists_def
        env0_def mockRequest_def)




text \<open>
  C10. When the text of the body, after the removal of scripts and styles, is \<open>null\<close> or only
  whitespace, the \<open>txt\<close> operation (all stages succeeding) returns \<open>isError\<close> false with its two
  segments, and the file it wrote is empty. The theorem after this one is such a request.
\<close>

theorem C10_empty_text_file:
  assumes "mkdir e (downloadDir e) = None" and "\<not> isIpPrivate e (url p)"
    and "fetch e (url p) (request_headers (headers p)) = Inr response" and "ok response"
    and "res_text response = Inr htmlForText"
    and "jsdom_body_text e htmlForText = Inr textContent"
    and "case textContent of None \<Rightarrow> True | Some t \<Rightarrow> list_all is_js_space t"
    and "generateUniqueFilename e (url p) ''txt'' = Inr filename"
    and "writeFile e (path_join e (downloadDir e) filename) [] = None"
  shows "fst (txt_op e p w) =
           \<lparr>content = [TextItem (''File saved to: '' @ path_join e (downloadDir e) filename),
                       TextItem ''Content-Type: text/plain''],
            isError = False\<rparr>
         \<and> files (snd (txt_op e p w)) (path_join e (downloadDir e) filename) = Some []"
proof -
  have "trim (collapse_whitespace (case textContent of None \<Rightarrow> [] | Some t \<Rightarrow> t)) = []"
  proof (cases textContent)
    case None
    then show ?thesis by (simp add: trim_def)
  next
    case (Some t)
    with assms(7) have "list_all is_js_space t" by simp
    then have "trim (collapse_whitespace t) = []" by (rule whitespace_only)
    with Some show ?thesis by simp
  qed
  then have "processContent e response Txt = Inr ([], ''text/plain'', ''txt'')"
    using assms(5,6) by (simp add: processContent_def)
  then show ?thesis
    using assms(1-4,8,9)
    by (simp add: txt_op_def fetchAndSave_def fetchAndSave_try_def ensureDownloadDirExists_def
          Let_def)
qed

theorem C10_empty_text_file_witness:
  "fst (txt_op (env0\<lparr>fetch := \<lambda>u hs. Inr (htmlResponse\<lparr>res_text := Inr blankHtml\<rparr>),
                     jsdom_body_text := \<lambda>h. Inr (Some '' '')\<rparr>) mockRequest world0) =
     \<lparr>content =
        [TextItem ''File saved to: /mock/.downloaded_files/20231027T103000Z-a1b2c3d4-example_com.txt'',
         TextItem ''Content-Type: text/plain''],
      isError = False\<rparr>
   \<and> files (snd (txt_op (env0\<lparr>fetch := \<lambda>u hs. Inr (htmlResponse\<lparr>res_text := Inr blankHtml\<rparr>),
                     jsdom_body_text := \<lambda>h. Inr (Some '' '')\<rparr>) mockRequest world0))
       ''/mock/.downloaded_files/20231027T103000Z-a1b2c3d4-example_com.txt'' = Some []"
proof -
  let ?e = "env0\<lparr>fetch := \<lambda>u hs. Inr (htmlResponse\<lparr>res_text := Inr blankHtml\<rparr>),
                     jsdom_body_text := \<lambda>h. Inr (Some '' '')\<rparr>"
  have 1: "mkdir ?e (downloadDir ?e) = None" by (simp add: env0_def)
  have 2: "\<not> isIpPrivate ?e (url mockRequest)" by (simp add: env0_def)
  have 3: "fetch ?e (url mockRequest) (request_headers (headers mockRequest))
             = Inr (htmlResponse\<lparr>res_text := Inr blankHtml\<rparr>)" by simp
  have 4: "ok (htmlResponse\<lparr>res_text := Inr blankHtml\<rparr>)" by (simp add: htmlResponse_def)
  have 5: "res_text (htmlResponse\<lparr>res_text := Inr blankHtml\<rparr>) = Inr blankHtml" by simp
  have 6: "jsdom_body_text ?e blankHtml = Inr (Some '' '')" by simp
  have 7: "case Some '' '' of None \<Rightarrow> True | Some t \<Rightarrow> list_all is_js_space t"
    by (simp add: is_js_space_def)
  have 8: "generateUniqueFilename ?e (url mockRequest) ''txt''
             = Inr ''20231027T103000Z-a1b2c3d4-example_com.txt''"
    by (simp add: env0_eval)
  have 9: "writeFile ?e (path_join ?e (downloadDir ?e) ''20231027T103000Z-a1b2c3d4-example_com.txt'') [] = None"
    by (simp add: env0_def)
  show ?thesis
    using C10_empty_text_file [OF 1 2 3 4 5 6 7 8 9, of world0]
    by (simp add: env0_def)
qed

end
